theory Spec2Isabelle
  imports Complex_Main
begin

section \<open>Python helpers\<close>

text \<open>
  \<^verbatim>\<open>math.ceil(a / 1000)\<close> on an integer \<open>a\<close>. The source divides in floating point and
  then rounds up; for the magnitudes of millisecond differences the quotient is exact
  enough that the result is the integer ceiling, which is what is written here.
\<close>

definition ceil_div_1000 :: "int \<Rightarrow> int" where
  "ceil_div_1000 a = - ((- a) div 1000)"

text \<open>\<^verbatim>\<open>str(n)\<close> for an integer: decimal digits, a leading minus sign for negatives.\<close>

definition digit_char :: "nat \<Rightarrow> char" where
  "digit_char d = char_of (48 + d)"

fun str_nat :: "nat \<Rightarrow> string" where
  "str_nat n = (if n < 10 then [digit_char n] else str_nat (n div 10) @ [digit_char (n mod 10)])"

definition str_int :: "int \<Rightarrow> string" where
  "str_int i = (if i < 0 then CHR ''-'' # str_nat (nat (- i)) else str_nat (nat i))"

text \<open>\<^verbatim>\<open>s.endswith(suffix)\<close>.\<close>

definition endswith :: "string \<Rightarrow> string \<Rightarrow> bool" where
  "endswith s suffix = (length suffix \<le> length s \<and> drop (length s - length suffix) s = suffix)"

text \<open>\<^verbatim>\<open>s.lower()\<close> on ASCII text (host names and algorithm names are ASCII).\<close>

definition lower_char :: "char \<Rightarrow> char" where
  "lower_char c = (let n = of_char c :: nat in if 65 \<le> n \<and> n \<le> 90 then char_of (n + 32) else c)"

definition lower :: "string \<Rightarrow> string" where
  "lower s = map lower_char s"

text \<open>\<^verbatim>\<open>s.strip()\<close>: leading and trailing ASCII whitespace removed.\<close>

definition is_space :: "char \<Rightarrow> bool" where
  "is_space c = (let n = of_char c :: nat in n = 32 \<or> (9 \<le> n \<and> n \<le> 13))"

definition strip :: "string \<Rightarrow> string" where
  "strip s = rev (dropWhile is_space (rev (dropWhile is_space s)))"

section \<open>The key-value store used by the rate limiter\<close>

text \<open>
  A key holds an integer counter or a sorted set of (member, score) pairs, with an optional
  expiry deadline in milliseconds. A key whose deadline has passed reads as absent. The
  server's clock is taken to be the caller's \<open>now\<close>.
\<close>

datatype rval = RInt int | RZSet "(string \<times> int) list"

record rentry =
  rvalue :: rval
  expire_at :: "int option"

type_synonym redis = "string \<Rightarrow> rentry option"

datatype redis_error = WrongType | IncrOverflow

definition live :: "int \<Rightarrow> rentry \<Rightarrow> bool" where
  "live t e = (case expire_at e of None \<Rightarrow> True | Some d \<Rightarrow> t < d)"

definition rget :: "redis \<Rightarrow> int \<Rightarrow> string \<Rightarrow> rentry option" where
  "rget st t key = (case st key of None \<Rightarrow> None | Some e \<Rightarrow> if live t e then Some e else None)"

definition in_range :: "int \<Rightarrow> int \<Rightarrow> string \<times> int \<Rightarrow> bool" where
  "in_range lo hi ms = (lo \<le> snd ms \<and> snd ms \<le> hi)"

text \<open>ZREMRANGEBYSCORE key lo hi: drops the members scored in [lo, hi]; an emptied set is deleted.\<close>

definition zremrangebyscore ::
  "redis \<Rightarrow> int \<Rightarrow> string \<Rightarrow> int \<Rightarrow> int \<Rightarrow> redis_error + (redis \<times> int)" where
  "zremrangebyscore st t key lo hi =
     (case rget st t key of
        None \<Rightarrow> Inr (st, 0)
      | Some e \<Rightarrow>
          (case rvalue e of
             RInt _ \<Rightarrow> Inl WrongType
           | RZSet zs \<Rightarrow>
               (let kept = filter (\<lambda>ms. \<not> in_range lo hi ms) zs in
                Inr (if kept = [] then st(key := None)
                     else st(key \<mapsto> e\<lparr>rvalue := RZSet kept\<rparr>),
                     int (length zs) - int (length kept)))))"

text \<open>ZCARD key.\<close>

definition zcard :: "redis \<Rightarrow> int \<Rightarrow> string \<Rightarrow> redis_error + int" where
  "zcard st t key =
     (case rget st t key of
        None \<Rightarrow> Inr 0
      | Some e \<Rightarrow> (case rvalue e of RInt _ \<Rightarrow> Inl WrongType | RZSet zs \<Rightarrow> Inr (int (length zs))))"

text \<open>
  The entry of least score. The store breaks ties between equal scores by member; the
  callers read the score only, so any entry of least score serves.
\<close>

fun oldest_entry :: "(string \<times> int) list \<Rightarrow> (string \<times> int) option" where
  "oldest_entry [] = None"
| "oldest_entry (x # xs) =
     (case oldest_entry xs of
        None \<Rightarrow> Some x
      | Some y \<Rightarrow> if snd x \<le> snd y then Some x else Some y)"

text \<open>ZRANGE key 0 0 WITHSCORES: a list of at most one (member, score).\<close>

definition zrange_0_0 :: "redis \<Rightarrow> int \<Rightarrow> string \<Rightarrow> redis_error + (string \<times> int) list" where
  "zrange_0_0 st t key =
     (case rget st t key of
        None \<Rightarrow> Inr []
      | Some e \<Rightarrow>
          (case rvalue e of
             RInt _ \<Rightarrow> Inl WrongType
           | RZSet zs \<Rightarrow> Inr (case oldest_entry zs of None \<Rightarrow> [] | Some x \<Rightarrow> [x])))"

text \<open>ZADD key score member: a member already present only has its score replaced.\<close>

definition zadd :: "redis \<Rightarrow> int \<Rightarrow> string \<Rightarrow> string \<Rightarrow> int \<Rightarrow> redis_error + redis" where
  "zadd st t key member score =
     (case rget st t key of
        None \<Rightarrow> Inr (st(key \<mapsto> \<lparr>rvalue = RZSet [(member, score)], expire_at = None\<rparr>))
      | Some e \<Rightarrow>
          (case rvalue e of
             RInt _ \<Rightarrow> Inl WrongType
           | RZSet zs \<Rightarrow>
               Inr (st(key \<mapsto> e\<lparr>rvalue :=
                      RZSet ((member, score) # filter (\<lambda>ms. fst ms \<noteq> member) zs)\<rparr>))))"

text \<open>PEXPIRE key ms: a non-positive time to live deletes the key at once.\<close>

definition pexpire :: "redis \<Rightarrow> int \<Rightarrow> string \<Rightarrow> int \<Rightarrow> redis" where
  "pexpire st t key ms =
     (case rget st t key of
        None \<Rightarrow> st
      | Some e \<Rightarrow> if ms \<le> 0 then st(key := None) else st(key \<mapsto> e\<lparr>expire_at := Some (t + ms)\<rparr>))"

text \<open>INCR key: an absent key counts from zero; the counter is a signed 64-bit integer.\<close>

definition incr :: "redis \<Rightarrow> int \<Rightarrow> string \<Rightarrow> redis_error + (redis \<times> int)" where
  "incr st t key =
     (case rget st t key of
        None \<Rightarrow> Inr (st(key \<mapsto> \<lparr>rvalue = RInt 1, expire_at = None\<rparr>), 1)
      | Some e \<Rightarrow>
          (case rvalue e of
             RZSet _ \<Rightarrow> Inl WrongType
           | RInt n \<Rightarrow>
               if n = 2 ^ 63 - 1 then Inl IncrOverflow
               else Inr (st(key \<mapsto> e\<lparr>rvalue := RInt (n + 1)\<rparr>), n + 1)))"

section \<open>The rate limiter (redis-ratelimiter/main.py)\<close>

record result =
  out_allow :: bool
  out_limit :: int
  out_remaining :: int
  out_reset :: int
  out_retryAfter :: "int option"

datatype py_error = ZeroDivisionError | ValueError | AttributeError | ResponseError redis_error

text \<open>\<^verbatim>\<open>k(id_)\<close>: the namespace prefix (NAMESPACE_PREFIX, by default \<open>ratelimit:\<close>) before the id.\<close>

definition k :: "string \<Rightarrow> string \<Rightarrow> string" where
  "k NAMESPACE ident = NAMESPACE @ ident"

definition reset_from :: "(string \<times> int) list \<Rightarrow> int \<Rightarrow> int \<Rightarrow> int" where
  "reset_from oldest now window_ms =
     (case oldest of [] \<Rightarrow> now + window_ms | x # _ \<Rightarrow> snd x + window_ms)"

text \<open>
  \<^verbatim>\<open>_sliding_window\<close>. \<open>now\<close> is the clock reading, \<open>nonce\<close> the fresh uuid. The two
  pipelines run as transactions: every queued command runs and the first error is raised
  afterwards.
\<close>

definition sliding_window ::
  "string \<Rightarrow> string \<Rightarrow> int \<Rightarrow> int \<Rightarrow> int \<Rightarrow> string \<Rightarrow> redis \<Rightarrow> redis \<times> (py_error + result)" where
  "sliding_window NAMESPACE ident limit window_ms now nonce st =
     (let key = k NAMESPACE ident in
      case zremrangebyscore st now key 0 (now - window_ms) of
        Inl e \<Rightarrow> (st, Inl (ResponseError e))
      | Inr (st1, trimmed) \<Rightarrow>
          (case zcard st1 now key of
             Inl e \<Rightarrow> (st1, Inl (ResponseError e))
           | Inr count \<Rightarrow>
               if count \<ge> limit then
                 (case zrange_0_0 st1 now key of
                    Inl e \<Rightarrow> (st1, Inl (ResponseError e))
                  | Inr oldest \<Rightarrow>
                      (let reset_ms = reset_from oldest now window_ms;
                           retry_after = max 0 (ceil_div_1000 (reset_ms - now))
                       in (st1, Inr \<lparr>out_allow = False, out_limit = limit, out_remaining = 0,
                                     out_reset = reset_ms, out_retryAfter = Some retry_after\<rparr>)))
               else
                 (let member = str_int now @ ''-'' @ nonce in
                  case zadd st1 now key member now of
                    Inl e \<Rightarrow> (pexpire st1 now key (window_ms + 60000), Inl (ResponseError e))
                  | Inr st2 \<Rightarrow>
                      (let st3 = pexpire st2 now key (window_ms + 60000);
                           remaining = max 0 (limit - (count + 1))
                       in case zrange_0_0 st3 now key of
                            Inl e \<Rightarrow> (st3, Inl (ResponseError e))
                          | Inr oldest \<Rightarrow>
                              (st3, Inr \<lparr>out_allow = True, out_limit = limit,
                                         out_remaining = remaining,
                                         out_reset = reset_from oldest now window_ms,
                                         out_retryAfter = None\<rparr>)))))"

text \<open>
  The \<^verbatim>\<open>elif algo == "fixed"\<close> branch of \<^verbatim>\<open>ratelimit\<close>: INCR and PEXPIRE in one
  transaction. \<^verbatim>\<open>now // window_ms\<close> raises ZeroDivisionError for a zero window.
\<close>

definition fixed_window ::
  "string \<Rightarrow> string \<Rightarrow> int \<Rightarrow> int \<Rightarrow> int \<Rightarrow> redis \<Rightarrow> redis \<times> (py_error + result)" where
  "fixed_window NAMESPACE ident limit window_ms now st =
     (if window_ms = 0 then (st, Inl ZeroDivisionError)
      else
        (let key = k NAMESPACE (''fw:'' @ ident @ '':'' @ str_int (now div window_ms)) in
         case incr st now key of
           Inl e \<Rightarrow> (pexpire st now key window_ms, Inl (ResponseError e))
         | Inr (st1, value) \<Rightarrow>
             (let st2 = pexpire st1 now key window_ms;
                  remaining = max 0 (limit - value);
                  allow = (value \<le> limit);
                  bucket_end = (now div window_ms + 1) * window_ms
              in (st2, Inr \<lparr>out_allow = allow, out_limit = limit,
                            out_remaining = (if allow then remaining else 0),
                            out_reset = bucket_end,
                            out_retryAfter =
                              (if \<not> allow then Some (max 0 (ceil_div_1000 (bucket_end - now)))
                               else None)\<rparr>))))"



subsection \<open>The request handler\<close>

text \<open>
  A field of the JSON body (or an environment variable) that the code passes to
  \<^verbatim>\<open>int()\<close>, or calls \<^verbatim>\<open>.lower()\<close> on: absent, a value the conversion accepts (with its
  result), or a value on which the conversion raises.
\<close>

datatype 'a field = Missing | Value 'a | Unconvertible

text \<open>
  The request: a body that is not JSON, a JSON value that is not an object, or an object.
  \<open>body_id\<close> is \<^verbatim>\<open>str()\<close> of the id when there is one.
\<close>

datatype request =
    InvalidJSON
  | NotAnObject
  | Body (body_id: "string option") (body_limit: "int field") (body_windowMs: "int field")
         (body_algo: "string field")

datatype response = JSONResponse result | HTTPException nat string | InternalServerError py_error

definition int_or :: "int \<Rightarrow> int field \<Rightarrow> py_error + int" where
  "int_or dflt f = (case f of Missing \<Rightarrow> Inr dflt | Value n \<Rightarrow> Inr n | Unconvertible \<Rightarrow> Inl ValueError)"

text \<open>\<^verbatim>\<open>(body.get("algo") or "sliding").lower()\<close>: an empty string is falsy too.\<close>

definition algo_of :: "string field \<Rightarrow> py_error + string" where
  "algo_of f =
     (case f of
        Missing \<Rightarrow> Inr (lower ''sliding'')
      | Value a \<Rightarrow> Inr (lower (if a = [] then ''sliding'' else a))
      | Unconvertible \<Rightarrow> Inl AttributeError)"

definition respond :: "redis \<times> (py_error + result) \<Rightarrow> redis \<times> response" where
  "respond sr = (case sr of (st, Inl e) \<Rightarrow> (st, InternalServerError e)
                          | (st, Inr r) \<Rightarrow> (st, JSONResponse r))"

text \<open>
  \<^verbatim>\<open>ratelimit\<close>, the POST /ratelimit handler. The conversions of limit, windowMs and algo
  come before the check of the id, as in the source; an exception that the handler does
  not catch is answered with status 500. The store is taken to answer within the two
  seconds the handler waits, so that the 504 branch is not taken.
\<close>

definition ratelimit ::
  "string \<Rightarrow> int \<Rightarrow> string \<Rightarrow> request \<Rightarrow> redis \<Rightarrow> redis \<times> response" where
  "ratelimit NAMESPACE now nonce req st =
     (case req of
        InvalidJSON \<Rightarrow> (st, HTTPException 400 ''invalid JSON'')
      | NotAnObject \<Rightarrow> (st, InternalServerError AttributeError)
      | Body idf limf winf algof \<Rightarrow>
          (let ident = strip (case idf of None \<Rightarrow> [] | Some s \<Rightarrow> s) in
           case int_or 5 limf of
             Inl e \<Rightarrow> (st, InternalServerError e)
           | Inr limit \<Rightarrow>
               (case int_or 10000 winf of
                  Inl e \<Rightarrow> (st, InternalServerError e)
                | Inr window_ms \<Rightarrow>
                    (case algo_of algof of
                       Inl e \<Rightarrow> (st, InternalServerError e)
                     | Inr algo \<Rightarrow>
                         if ident = [] then (st, HTTPException 400 ''missing id'')
                         else if algo = ''sliding'' then
                           respond (sliding_window NAMESPACE ident limit window_ms now nonce st)
                         else if algo = ''fixed'' then
                           respond (fixed_window NAMESPACE ident limit window_ms now st)
                         else (st, HTTPException 400 ''unsupported algo'')))))"

subsection \<open>Start-up of the rate limiter\<close>

record ratelimiter_env =
  REDIS_HOST :: "string option"
  REDIS_PASSWORD :: "string option"
  REDIS_PORT :: "int field"
  REDIS_DB :: "int field"
  NAMESPACE_PREFIX :: "string option"

record ratelimiter_config =
  cfg_host :: string
  cfg_password :: string
  cfg_port :: int
  cfg_db :: int
  cfg_namespace :: string

text \<open>\<^verbatim>\<open>not v\<close> for the result of \<^verbatim>\<open>os.getenv\<close>: unset or empty.\<close>

definition unset :: "string option \<Rightarrow> bool" where
  "unset v = (case v of None \<Rightarrow> True | Some s \<Rightarrow> s = [])"

text \<open>
  A process either exits with a status or goes on with a value. The module body of
  main.py exits before the client and the application are created.
\<close>

datatype 'a started = Exit int | Running 'a

definition module_init :: "ratelimiter_env \<Rightarrow> ratelimiter_config started" where
  "module_init env =
     (if unset (REDIS_HOST env) then Exit 1
      else if unset (REDIS_PASSWORD env) then Exit 1
      else case REDIS_PORT env of
        Unconvertible \<Rightarrow> Exit 1
      | port \<Rightarrow>
          (case REDIS_DB env of
             Unconvertible \<Rightarrow> Exit 1
           | db \<Rightarrow>
               Running \<lparr>cfg_host = the (REDIS_HOST env),
                        cfg_password = the (REDIS_PASSWORD env),
                        cfg_port = (case port of Value p \<Rightarrow> p | _ \<Rightarrow> 6379),
                        cfg_db = (case db of Value d \<Rightarrow> d | _ \<Rightarrow> 0),
                        cfg_namespace = (case NAMESPACE_PREFIX env of None \<Rightarrow> ''ratelimit:''
                                         | Some p \<Rightarrow> p)\<rparr>))"


section \<open>The workers (workers/asr, workers/diarization, workers/tts)\<close>

datatype status = QUEUED | RUNNING | COMPLETED | FAILED | CANCELLED

text \<open>A row of the Job table, keyed by the job id; times are clock readings.\<close>

record job_row =
  job_type :: string
  inputData :: string
  job_status :: status
  progress :: int
  workerId :: "string option"
  startedAt :: "int option"
  completedAt :: "int option"
  outputData :: "string option"
  errorMessage :: "string option"

type_synonym job_table = "string \<Rightarrow> job_row option"

text \<open>The queue lists of the key-value store: LPUSH adds at the head, BRPOP takes the last.\<close>

type_synonym queues = "string \<Rightarrow> string list"

text \<open>
  The dictionary \<^verbatim>\<open>get_next_job\<close> returns: the job id, the type and the decoded
  inputData (kept as the stored text).
\<close>

record job =
  jobId :: string
  jtype :: string
  payload :: string

text \<open>
  \<^verbatim>\<open>redis.brpop(queue, 1)\<close>: the last id of the list, removed; nothing when the list is
  still empty after the one-second wait.
\<close>

definition brpop :: "queues \<Rightarrow> string \<Rightarrow> (string \<times> queues) option" where
  "brpop qs queue = (case qs queue of [] \<Rightarrow> None
                     | xs \<Rightarrow> Some (last xs, qs(queue := butlast xs)))"

text \<open>\<^verbatim>\<open>SELECT id, type, "inputData", status FROM "Job" WHERE id = :job_id AND status = 'QUEUED'\<close>\<close>

definition select_queued :: "job_table \<Rightarrow> string \<Rightarrow> job_row option" where
  "select_queued tbl job_id =
     (case tbl job_id of
        None \<Rightarrow> None
      | Some r \<Rightarrow> if job_status r = QUEUED then Some r else None)"

text \<open>
  \<^verbatim>\<open>UPDATE "Job" SET status = 'RUNNING', "startedAt" = NOW(), "workerId" = :worker_id
  WHERE id = :job_id\<close>
\<close>

definition mark_running :: "job_table \<Rightarrow> string \<Rightarrow> string \<Rightarrow> int \<Rightarrow> job_table" where
  "mark_running tbl job_id worker_id now =
     (case tbl job_id of
        None \<Rightarrow> tbl
      | Some r \<Rightarrow> tbl(job_id \<mapsto> r\<lparr>job_status := RUNNING, startedAt := Some now,
                                    workerId := Some worker_id\<rparr>))"

text \<open>
  \<^verbatim>\<open>UPDATE "Job" SET status = 'COMPLETED', progress = 100, "completedAt" = NOW(),
  "outputData" = :output WHERE id = :job_id\<close>
\<close>

definition mark_completed :: "job_table \<Rightarrow> string \<Rightarrow> string \<Rightarrow> int \<Rightarrow> job_table" where
  "mark_completed tbl job_id output now =
     (case tbl job_id of
        None \<Rightarrow> tbl
      | Some r \<Rightarrow> tbl(job_id \<mapsto> r\<lparr>job_status := COMPLETED, progress := 100,
                                    completedAt := Some now, outputData := Some output\<rparr>))"

text \<open>
  \<^verbatim>\<open>UPDATE "Job" SET status = 'FAILED', "errorMessage" = :error, "completedAt" = NOW()
  WHERE id = :job_id\<close>
\<close>

definition mark_failed :: "job_table \<Rightarrow> string \<Rightarrow> string \<Rightarrow> int \<Rightarrow> job_table" where
  "mark_failed tbl job_id error now =
     (case tbl job_id of
        None \<Rightarrow> tbl
      | Some r \<Rightarrow> tbl(job_id \<mapsto> r\<lparr>job_status := FAILED, errorMessage := Some error,
                                    completedAt := Some now\<rparr>))"

subsection \<open>The claim, statement by statement\<close>

text \<open>
  Where a worker stands between the pop and the return of \<^verbatim>\<open>get_next_job\<close>: it holds a
  popped id, or the row its SELECT found, or it has returned the job, or it has dropped
  the id. Each step is one SQL statement, so that the statements of several workers can
  be interleaved.
\<close>

datatype claim_pc = Popped string | Selected string job_row | Claimed job | Discarded

fun claim_step :: "string \<Rightarrow> int \<Rightarrow> claim_pc \<Rightarrow> job_table \<Rightarrow> claim_pc \<times> job_table" where
  "claim_step worker_id now (Popped job_id) tbl =
     (case select_queued tbl job_id of
        None \<Rightarrow> (Discarded, tbl)
      | Some r \<Rightarrow> (Selected job_id r, tbl))"
| "claim_step worker_id now (Selected job_id r) tbl =
     (Claimed \<lparr>jobId = job_id, jtype = job_type r, payload = inputData r\<rparr>,
      mark_running tbl job_id worker_id now)"
| "claim_step worker_id now (Claimed j) tbl = (Claimed j, tbl)"
| "claim_step worker_id now Discarded tbl = (Discarded, tbl)"

text \<open>
  A schedule names, step by step, which worker runs its next statement; the workers share
  the table.
\<close>

fun run_schedule ::
  "nat list \<Rightarrow> (nat \<Rightarrow> string) \<Rightarrow> int \<Rightarrow> (nat \<Rightarrow> claim_pc) \<times> job_table
     \<Rightarrow> (nat \<Rightarrow> claim_pc) \<times> job_table" where
  "run_schedule [] worker_ids now cfg = cfg"
| "run_schedule (i # sched) worker_ids now (pcs, tbl) =
     (case claim_step (worker_ids i) now (pcs i) tbl of
        (pc', tbl') \<Rightarrow> run_schedule sched worker_ids now (pcs(i := pc'), tbl'))"

text \<open>The claim of one worker run without interruption: SELECT, then UPDATE when a row came back.\<close>

definition claim :: "string \<Rightarrow> int \<Rightarrow> string \<Rightarrow> job_table \<Rightarrow> job option \<times> job_table" where
  "claim worker_id now job_id tbl =
     (case select_queued tbl job_id of
        None \<Rightarrow> (None, tbl)
      | Some r \<Rightarrow> (Some \<lparr>jobId = job_id, jtype = job_type r, payload = inputData r\<rparr>,
                   mark_running tbl job_id worker_id now))"

subsection \<open>Fetching the next job\<close>

text \<open>
  The loop of \<^verbatim>\<open>get_next_job\<close> over the queue names: pop, claim, return the job when the
  claim found a QUEUED row, otherwise go on with the next queue.
\<close>

fun get_next_job_from ::
  "string list \<Rightarrow> string \<Rightarrow> int \<Rightarrow> queues \<times> job_table \<Rightarrow> job option \<times> queues \<times> job_table" where
  "get_next_job_from [] worker_id now (qs, tbl) = (None, qs, tbl)"
| "get_next_job_from (queue # rest) worker_id now (qs, tbl) =
     (case brpop qs queue of
        None \<Rightarrow> get_next_job_from rest worker_id now (qs, tbl)
      | Some (job_id, qs') \<Rightarrow>
          (case claim worker_id now job_id tbl of
             (Some j, tbl') \<Rightarrow> (Some j, qs', tbl')
           | (None, tbl') \<Rightarrow> get_next_job_from rest worker_id now (qs', tbl')))"

definition priorities :: "string list" where
  "priorities = [''URGENT'', ''HIGH'', ''NORMAL'', ''LOW'']"

definition queue_name :: "string \<Rightarrow> string \<Rightarrow> string" where
  "queue_name jt priority = ''queue:'' @ jt @ '':'' @ priority"

text \<open>The nested loops of the multi-type workers: outer by type, inner by priority.\<close>

definition queues_of :: "string list \<Rightarrow> string list" where
  "queues_of job_types = concat (map (\<lambda>jt. map (queue_name jt) priorities) job_types)"

definition ASR_queues :: "string list" where
  "ASR_queues = [''queue:TRANSCRIPTION:URGENT'', ''queue:TRANSCRIPTION:HIGH'',
                 ''queue:TRANSCRIPTION:NORMAL'', ''queue:TRANSCRIPTION:LOW'']"



definition TTS_get_next_job ::
  "string \<Rightarrow> int \<Rightarrow> queues \<times> job_table \<Rightarrow> job option \<times> queues \<times> job_table" where
  "TTS_get_next_job = get_next_job_from (queues_of [''TTS_SYNTHESIS'', ''TTS_TRAINING''])"

subsection \<open>One turn of the worker loop\<close>

text \<open>
  The stage adapter is outside the core: \<open>process\<close> gives, for a job, the JSON text of its
  result or the text of the exception it raised.
\<close>

definition terminal_write :: "job_table \<Rightarrow> string \<Rightarrow> string + string \<Rightarrow> int \<Rightarrow> job_table" where
  "terminal_write tbl job_id outcome now =
     (case outcome of
        Inr output \<Rightarrow> mark_completed tbl job_id output now
      | Inl error \<Rightarrow> mark_failed tbl job_id error now)"




section \<open>The DNS reconciler (cloudflare-sync)\<close>

text \<open>A record of the zone as the provider lists it; \<open>rec_proxied\<close> may be absent.\<close>

record dns_record =
  rec_id :: string
  rec_type :: string
  rec_name :: string
  rec_content :: string
  rec_proxied :: "bool option"

text \<open>
  The three write calls to the provider, with their arguments (the zone id is the same
  throughout a pass): \<^verbatim>\<open>update_dns_record(zone_id, record_id, hostname, ip, proxied)\<close>,
  \<^verbatim>\<open>create_dns_record(zone_id, hostname, ip, proxied)\<close> and
  \<^verbatim>\<open>delete_dns_record(zone_id, record_id)\<close>.
\<close>

datatype api_call =
    UpdateRecord string string string bool
  | CreateRecord string string bool
  | DeleteRecord string

text \<open>The first A-record of the listing with the given name (the loops that break at the first match).\<close>

definition find_A :: "dns_record list \<Rightarrow> string \<Rightarrow> dns_record option" where
  "find_A existing_records name =
     find (\<lambda>r. rec_type r = ''A'' \<and> rec_name r = name) existing_records"

text \<open>\<^verbatim>\<open>record.get('proxied', True)\<close>\<close>

definition get_proxied :: "dns_record \<Rightarrow> bool" where
  "get_proxied r = (case rec_proxied r of None \<Rightarrow> True | Some p \<Rightarrow> p)"

definition ssh_hostname_of :: "string \<Rightarrow> string" where
  "ssh_hostname_of DOMAIN_BASE = lower (''ssh-3afb6505.'' @ DOMAIN_BASE)"

text \<open>The root record: updated when its content differs, created when there is none.\<close>

definition root_calls :: "string \<Rightarrow> string \<Rightarrow> dns_record list \<Rightarrow> api_call list" where
  "root_calls DOMAIN_BASE external_ip existing_records =
     (case find_A existing_records DOMAIN_BASE of
        Some root_record \<Rightarrow>
          if rec_content root_record \<noteq> external_ip
          then [UpdateRecord (rec_id root_record) DOMAIN_BASE external_ip True]
          else []
      | None \<Rightarrow> [CreateRecord DOMAIN_BASE external_ip True])"

text \<open>The SSH helper record: updated when its content differs or it is not unproxied.\<close>

definition ssh_calls :: "string \<Rightarrow> string \<Rightarrow> dns_record list \<Rightarrow> api_call list" where
  "ssh_calls DOMAIN_BASE external_ip existing_records =
     (let ssh_hostname = ssh_hostname_of DOMAIN_BASE in
      case find_A existing_records ssh_hostname of
        Some ssh_record \<Rightarrow>
          if rec_content ssh_record \<noteq> external_ip \<or> get_proxied ssh_record \<noteq> False
          then [UpdateRecord (rec_id ssh_record) ssh_hostname external_ip False]
          else []
      | None \<Rightarrow> [CreateRecord ssh_hostname external_ip False])"

definition should_proxy_of :: "string \<Rightarrow> string \<Rightarrow> bool" where
  "should_proxy_of DOMAIN_BASE hostname_lower = (\<not> endswith hostname_lower (''-d.'' @ DOMAIN_BASE))"

text \<open>
  The loop over the hostnames of the Traefik configuration. It returns the calls it makes
  and \<^verbatim>\<open>processed_records\<close> as the loop leaves it.
\<close>

fun hostname_calls ::
  "string \<Rightarrow> string \<Rightarrow> dns_record list \<Rightarrow> string list \<Rightarrow> string list
     \<Rightarrow> api_call list \<times> string list" where
  "hostname_calls DOMAIN_BASE external_ip existing_records [] processed_records =
     ([], processed_records)"
| "hostname_calls DOMAIN_BASE external_ip existing_records (hostname # rest) processed_records =
     (let hostname_lower = lower hostname in
      if hostname_lower = ssh_hostname_of DOMAIN_BASE
      then hostname_calls DOMAIN_BASE external_ip existing_records rest processed_records
      else
        (let should_proxy = should_proxy_of DOMAIN_BASE hostname_lower;
             calls =
               (case find_A existing_records hostname_lower of
                  Some r \<Rightarrow>
                    if rec_content r \<noteq> external_ip \<or> get_proxied r \<noteq> should_proxy
                    then [UpdateRecord (rec_id r) hostname_lower external_ip should_proxy]
                    else []
                | None \<Rightarrow> [CreateRecord hostname_lower external_ip should_proxy])
         in case hostname_calls DOMAIN_BASE external_ip existing_records rest
                   (processed_records @ [hostname_lower]) of
              (later, processed') \<Rightarrow> (calls @ later, processed')))"

text \<open>The records the pruning loop deletes, in the order of the listing.\<close>

definition orphaned :: "string \<Rightarrow> string list \<Rightarrow> dns_record \<Rightarrow> bool" where
  "orphaned DOMAIN_BASE processed_records r =
     (rec_type r = ''A'' \<and> endswith (rec_name r) (''.'' @ DOMAIN_BASE)
      \<and> rec_name r \<notin> set processed_records)"

definition prune_calls :: "string \<Rightarrow> dns_record list \<Rightarrow> string list \<Rightarrow> api_call list" where
  "prune_calls DOMAIN_BASE existing_records processed_records =
     map (\<lambda>r. DeleteRecord (rec_id r)) (filter (orphaned DOMAIN_BASE processed_records) existing_records)"

text \<open>
  The write calls of one pass of \<^verbatim>\<open>sync_dns_records\<close>, in the order the pass makes them.
  Which calls are made depends on the listing fetched at the start and on the hostnames,
  never on the answers to earlier calls.
\<close>

definition sync_calls :: "string \<Rightarrow> string \<Rightarrow> dns_record list \<Rightarrow> string list \<Rightarrow> api_call list" where
  "sync_calls DOMAIN_BASE external_ip existing_records hostnames =
     (case hostname_calls DOMAIN_BASE external_ip existing_records hostnames
             [DOMAIN_BASE, ssh_hostname_of DOMAIN_BASE] of
        (calls, processed_records) \<Rightarrow>
          root_calls DOMAIN_BASE external_ip existing_records
          @ ssh_calls DOMAIN_BASE external_ip existing_records
          @ calls
          @ (if hostnames \<noteq> [] then prune_calls DOMAIN_BASE existing_records processed_records
             else []))"

text \<open>
  What the provider answers to a call: \<^verbatim>\<open>success\<close> true, \<^verbatim>\<open>success\<close> false, or no
  usable answer at all (the request raises). The answer to the n-th call of a pass is
  \<open>api n\<close>.
\<close>

datatype api_result = Succeeded | Failed | Raised

text \<open>
  The pass makes its calls in turn: a failed call clears \<^verbatim>\<open>success\<close> and the pass goes on,
  a raised exception ends the pass in the \<^verbatim>\<open>except\<close> branch, which returns False.
\<close>

fun execute ::
  "(nat \<Rightarrow> api_result) \<Rightarrow> nat \<Rightarrow> api_call list \<Rightarrow> (api_call \<times> api_result) list \<times> bool" where
  "execute api n [] = ([], True)"
| "execute api n (c # cs) =
     (case api n of
        Raised \<Rightarrow> ([(c, Raised)], False)
      | Failed \<Rightarrow> (case execute api (Suc n) cs of (made, success) \<Rightarrow> ((c, Failed) # made, False))
      | Succeeded \<Rightarrow>
          (case execute api (Suc n) cs of (made, success) \<Rightarrow> ((c, Succeeded) # made, success)))"

text \<open>
  The three look-ups at the start of a pass; each gives nothing when it raises.
\<close>

record lookups =
  lk_external_ip :: "string option"
  lk_zone_id :: "string option"
  lk_existing_records :: "dns_record list option"

text \<open>
  \<^verbatim>\<open>sync_dns_records\<close>: nothing when the exception for an unset DOMAIN_BASE leaves the
  function, otherwise the calls made with their answers and the value returned.
\<close>

definition sync_dns_records ::
  "string \<Rightarrow> lookups \<Rightarrow> (nat \<Rightarrow> api_result) \<Rightarrow> string list
     \<Rightarrow> ((api_call \<times> api_result) list \<times> bool) option" where
  "sync_dns_records DOMAIN_BASE lk api hostnames =
     (if DOMAIN_BASE = [] then None
      else Some
        (case lk_external_ip lk of
           None \<Rightarrow> ([], False)
         | Some external_ip \<Rightarrow>
             (case lk_zone_id lk of
                None \<Rightarrow> ([], False)
              | Some zone_id \<Rightarrow>
                  (case lk_existing_records lk of
                     None \<Rightarrow> ([], False)
                   | Some existing_records \<Rightarrow>
                       execute api 0 (sync_calls DOMAIN_BASE external_ip existing_records hostnames)))))"

text \<open>
  The zone after a call: a call that succeeded takes effect, any other leaves the zone as
  it was. The provider gives a created record an id of its choice, \<open>new_id\<close>.
\<close>

fun apply_call :: "string \<Rightarrow> api_call \<times> api_result \<Rightarrow> dns_record list \<Rightarrow> dns_record list" where
  "apply_call new_id (UpdateRecord record_id hostname ip proxied, Succeeded) zone =
     map (\<lambda>r. if rec_id r = record_id
               then r\<lparr>rec_type := ''A'', rec_name := hostname, rec_content := ip,
                      rec_proxied := Some proxied\<rparr>
               else r) zone"
| "apply_call new_id (CreateRecord hostname ip proxied, Succeeded) zone =
     zone @ [\<lparr>rec_id = new_id, rec_type = ''A'', rec_name = hostname, rec_content = ip,
              rec_proxied = Some proxied\<rparr>]"
| "apply_call new_id (DeleteRecord record_id, Succeeded) zone =
     filter (\<lambda>r. rec_id r \<noteq> record_id) zone"
| "apply_call new_id (c, Failed) zone = zone"
| "apply_call new_id (c, Raised) zone = zone"

fun apply_log ::
  "(nat \<Rightarrow> string) \<Rightarrow> nat \<Rightarrow> (api_call \<times> api_result) list \<Rightarrow> dns_record list \<Rightarrow> dns_record list" where
  "apply_log new_ids n [] zone = zone"
| "apply_log new_ids n (x # made) zone = apply_log new_ids (Suc n) made (apply_call (new_ids n) x zone)"

subsection \<open>The full-sync script (sync_cloudflare.py)\<close>

record sync_env =
  config_exists :: bool
  CLOUDFLARE_API_TOKEN :: "string option"
  env_DOMAIN_BASE :: string
  extracted :: "string list option"
  env_lookups :: lookups

record sync_outcome =
  exit_status :: int
  health_written :: bool
  api_log :: "(api_call \<times> api_result) list"

text \<open>
  \<^verbatim>\<open>main\<close> of sync_cloudflare.py: the status the process exits with, whether the health
  file was written, and the calls made. \<open>extracted\<close> is the list \<^verbatim>\<open>extract_hostnames\<close>
  returns, nothing when it raises.
\<close>

definition sync_main :: "sync_env \<Rightarrow> (nat \<Rightarrow> api_result) \<Rightarrow> sync_outcome" where
  "sync_main env api =
     (if \<not> config_exists env then \<lparr>exit_status = 1, health_written = False, api_log = []\<rparr>
      else if unset (CLOUDFLARE_API_TOKEN env)
        then \<lparr>exit_status = 0, health_written = False, api_log = []\<rparr>
      else if env_DOMAIN_BASE env = []
        then \<lparr>exit_status = 0, health_written = False, api_log = []\<rparr>
      else
        (case extracted env of
           None \<Rightarrow> \<lparr>exit_status = 1, health_written = False, api_log = []\<rparr>
         | Some hostnames \<Rightarrow>
             (case sync_dns_records (env_DOMAIN_BASE env) (env_lookups env) api hostnames of
                None \<Rightarrow> \<lparr>exit_status = 1, health_written = False, api_log = []\<rparr>
              | Some (made, success) \<Rightarrow>
                  \<lparr>exit_status = 0, health_written = success, api_log = made\<rparr>)))"

subsection \<open>The periodic check (lightweight_check.py)\<close>

text \<open>
  The two files the check keeps, and what it finds when it runs: the checksum of the
  Traefik configuration (nothing when md5sum fails), whether port 22 of the helper name
  answers, and whether the sync script can be started at all.
\<close>

record files =
  checksum_file :: "string option"
  health_file :: "int option"

record check_env =
  traefik_checksum :: "string option"
  nc_succeeds :: bool
  subprocess_starts :: bool
  clock :: int

definition has_traefik_config_changed :: "check_env \<Rightarrow> files \<Rightarrow> bool" where
  "has_traefik_config_changed cenv fs =
     (case traefik_checksum cenv of
        None \<Rightarrow> True
      | Some current_checksum \<Rightarrow>
          if current_checksum = [] then True
          else (case checksum_file fs of
                  None \<Rightarrow> True
                | Some previous \<Rightarrow> current_checksum \<noteq> strip previous))"

definition update_traefik_checksum :: "check_env \<Rightarrow> files \<Rightarrow> files" where
  "update_traefik_checksum cenv fs =
     (case traefik_checksum cenv of
        None \<Rightarrow> fs
      | Some checksum \<Rightarrow> if checksum = [] then fs else fs\<lparr>checksum_file := Some checksum\<rparr>)"

definition update_health_check :: "check_env \<Rightarrow> files \<Rightarrow> files" where
  "update_health_check cenv fs = fs\<lparr>health_file := Some (clock cenv)\<rparr>"

definition check_ssh_connectivity :: "string \<Rightarrow> check_env \<Rightarrow> bool" where
  "check_ssh_connectivity DOMAIN_BASE cenv = (if DOMAIN_BASE = [] then False else nc_succeeds cenv)"

text \<open>
  \<^verbatim>\<open>run_full_sync\<close> runs sync_cloudflare.py as a child process and reads its return code.
  The health file is shared with the child, which writes it when its pass succeeded.
\<close>

definition run_full_sync ::
  "check_env \<Rightarrow> sync_env \<Rightarrow> (nat \<Rightarrow> api_result) \<Rightarrow> files \<Rightarrow> bool \<times> files \<times> (api_call \<times> api_result) list" where
  "run_full_sync cenv env api fs =
     (if \<not> subprocess_starts cenv then (False, fs, [])
      else
        (let out = sync_main env api;
             fs1 = (if health_written out then update_health_check cenv fs else fs)
         in if exit_status out = 0 then (True, update_traefik_checksum cenv fs1, api_log out)
            else (False, fs1, api_log out)))"

text \<open>\<^verbatim>\<open>main\<close> of lightweight_check.py: the return code, the files and the calls made.\<close>

definition check_main ::
  "check_env \<Rightarrow> sync_env \<Rightarrow> (nat \<Rightarrow> api_result) \<Rightarrow> files \<Rightarrow> int \<times> files \<times> (api_call \<times> api_result) list" where
  "check_main cenv env api fs =
     (if has_traefik_config_changed cenv fs then
        (case run_full_sync cenv env api fs of
           (True, fs', made) \<Rightarrow> (0, update_health_check cenv fs', made)
         | (False, fs', made) \<Rightarrow> (1, fs', made))
      else if check_ssh_connectivity (env_DOMAIN_BASE env) cenv then
        (0, update_health_check cenv fs, [])
      else
        (case run_full_sync cenv env api fs of
           (True, fs', made) \<Rightarrow> (0, update_health_check cenv fs', made)
         | (False, fs', made) \<Rightarrow> (1, fs', made)))"

subsection \<open>Auxiliary notions for the statements about the rate limiter\<close>



text \<open>
  The sorted set a key holds at time \<open>t\<close>: empty when the key is absent or expired, nothing
  when the key holds a counter.
\<close>

definition zset_of :: "redis \<Rightarrow> int \<Rightarrow> string \<Rightarrow> (string \<times> int) list option" where
  "zset_of st t key =
     (case rget st t key of
        None \<Rightarrow> Some []
      | Some e \<Rightarrow> (case rvalue e of RZSet zs \<Rightarrow> Some zs | RInt _ \<Rightarrow> None))"

text \<open>What ZREMRANGEBYSCORE key 0 (now - window_ms) leaves of a set.\<close>

definition trim :: "int \<Rightarrow> int \<Rightarrow> (string \<times> int) list \<Rightarrow> (string \<times> int) list" where
  "trim now window_ms zs = filter (\<lambda>ms. \<not> in_range 0 (now - window_ms) ms) zs"



subsection \<open>Auxiliary notions for the statements about the workers\<close>

text \<open>The queues after one pop from each of the named queues (a pop from an empty list leaves it empty).\<close>

definition popped_queues :: "string list \<Rightarrow> queues \<Rightarrow> queues" where
  "popped_queues names qs = (\<lambda>q. if q \<in> set names then butlast (qs q) else qs q)"

text \<open>A queue gives the scan nothing to return: it is empty, or the id it pops has no QUEUED row.\<close>

definition stale :: "queues \<Rightarrow> job_table \<Rightarrow> string \<Rightarrow> bool" where
  "stale qs tbl q = (qs q = [] \<or> select_queued tbl (last (qs q)) = None)"


text \<open>A row as a producer inserts it, with the given status.\<close>

definition new_row :: "string \<Rightarrow> status \<Rightarrow> job_row" where
  "new_row jt s = \<lparr>job_type = jt, inputData = ''{}'', job_status = s, progress = 0,
                   workerId = None, startedAt = None, completedAt = None,
                   outputData = None, errorMessage = None\<rparr>"




text \<open>One queued job whose id two workers have both popped (the id was delivered twice).\<close>

definition race_table :: job_table where
  "race_table = (\<lambda>i. None)(''job-1'' \<mapsto> new_row ''TRANSCRIPTION'' QUEUED)"

definition race_workers :: "nat \<Rightarrow> string" where
  "race_workers i = (if i = 0 then ''asr-1-a'' else ''asr-2-b'')"

text \<open>A job that worker asr-1-a claimed and an operator then cancelled.\<close>

definition cancelled_table :: job_table where
  "cancelled_table =
     (\<lambda>i. None)(''job-1'' \<mapsto> (new_row ''TRANSCRIPTION'' CANCELLED)
                     \<lparr>workerId := Some ''asr-1-a'', startedAt := Some 3\<rparr>)"

subsection \<open>Auxiliary notions for the statements about the reconciler\<close>

text \<open>Look-ups that all succeed, with the given listing of the zone.\<close>

definition good_lookups :: "dns_record list \<Rightarrow> lookups" where
  "good_lookups existing =
     \<lparr>lk_external_ip = Some ''1.2.3.4'', lk_zone_id = Some ''zone-1'',
      lk_existing_records = Some existing\<rparr>"

text \<open>An environment without the provider token, and one with everything set.\<close>

definition no_token_env :: sync_env where
  "no_token_env =
     \<lparr>config_exists = True, CLOUDFLARE_API_TOKEN = None, env_DOMAIN_BASE = ''example.com'',
      extracted = Some [''a.example.com''], env_lookups = good_lookups []\<rparr>"

definition one_host_env :: sync_env where
  "one_host_env =
     \<lparr>config_exists = True, CLOUDFLARE_API_TOKEN = Some ''token'', env_DOMAIN_BASE = ''example.com'',
      extracted = Some [''a.example.com''], env_lookups = good_lookups []\<rparr>"

text \<open>A tick that finds the configuration changed since the stored checksum.\<close>

definition changed_config :: check_env where
  "changed_config =
     \<lparr>traefik_checksum = Some ''new'', nc_succeeds = True, subprocess_starts = True, clock = 100\<rparr>"

definition old_files :: files where
  "old_files = \<lparr>checksum_file = Some ''old'', health_file = None\<rparr>"

text \<open>A zone whose root record has the right address but is not proxied.\<close>

definition unproxied_root :: "dns_record list" where
  "unproxied_root =
     [\<lparr>rec_id = ''r1'', rec_type = ''A'', rec_name = ''example.com'', rec_content = ''1.2.3.4'',
       rec_proxied = Some False\<rparr>]"



text \<open>The hostname and the proxy flag a call writes.\<close>

fun written :: "api_call \<Rightarrow> (string \<times> bool) option" where
  "written (UpdateRecord record_id hostname ip proxied) = Some (hostname, proxied)"
| "written (CreateRecord hostname ip proxied) = Some (hostname, proxied)"
| "written (DeleteRecord record_id) = None"



section \<open>Verified properties\<close>

subsection \<open>Arithmetic of the rate limiter\<close>




subsection \<open>Fixed window: N allowed calls, then denials\<close>





subsection \<open>Sliding window\<close>

lemma oldest_entry_None: "oldest_entry zs = None \<longleftrightarrow> zs = []"
  by (induction zs) (auto split: option.splits)

lemma oldest_entry_Some:
  "oldest_entry zs = Some x \<Longrightarrow> x \<in> set zs \<and> (\<forall>y\<in>set zs. snd x \<le> snd y)"
proof (induction zs arbitrary: x)
  case Nil
  then show ?case by simp
next
  case (Cons z zs)
  show ?case
  proof (cases "oldest_entry zs")
    case None
    then have "zs = []" by (simp add: oldest_entry_None)
    with Cons.prems show ?thesis by simp
  next
    case (Some y)
    from Cons.IH[OF Some] have y: "y \<in> set zs" "\<forall>w\<in>set zs. snd y \<le> snd w" by auto
    show ?thesis using Cons.prems Some y by (auto split: if_splits)
  qed
qed

lemma reset_from_oldest:
  "reset_from (case oldest_entry zs of None \<Rightarrow> [] | Some x \<Rightarrow> [x]) now W =
     (if zs = [] then now + W else Min (snd ` set zs) + W)"
proof (cases "oldest_entry zs")
  case None
  then show ?thesis by (simp add: reset_from_def oldest_entry_None)
next
  case (Some x)
  from oldest_entry_Some[OF Some] have x: "x \<in> set zs" "\<forall>y\<in>set zs. snd x \<le> snd y" by auto
  then have "Min (snd ` set zs) = snd x"
    by (intro Min_eqI) auto
  moreover have "zs \<noteq> []" using x by auto
  ultimately show ?thesis using Some by (simp add: reset_from_def)
qed


lemma rget_Some_iff: "rget st t key = Some e \<longleftrightarrow> st key = Some e \<and> live t e"
  by (auto simp: rget_def split: option.splits)

lemma rget_upd_same: "rget (st(key \<mapsto> e)) t key = (if live t e then Some e else None)"
  by (simp add: rget_def)

lemma rget_del_same: "rget (st(key := None)) t key = None"
  by (simp add: rget_def)

lemma live_rvalue_update: "live t (e\<lparr>rvalue := v\<rparr>) = live t e"
  by (simp add: live_def)

lemma zset_of_cases:
  assumes "zset_of st t key = Some zs"
  obtains (absent) "rget st t key = None" "zs = []"
        | (holds) e where "rget st t key = Some e" "rvalue e = RZSet zs"
  using assms by (auto simp: zset_of_def split: option.splits rval.splits)

lemma zcard_view: "zset_of st t key = Some zs \<Longrightarrow> zcard st t key = Inr (int (length zs))"
  by (erule zset_of_cases) (simp_all add: zcard_def)

lemma zrange_view:
  "zset_of st t key = Some zs \<Longrightarrow>
   zrange_0_0 st t key = Inr (case oldest_entry zs of None \<Rightarrow> [] | Some x \<Rightarrow> [x])"
  by (erule zset_of_cases) (simp_all add: zrange_0_0_def)

lemma zrem_view:
  assumes "zset_of st t key = Some zs"
  shows "\<exists>st1 n. zremrangebyscore st t key lo hi = Inr (st1, n)
           \<and> zset_of st1 t key = Some (filter (\<lambda>ms. \<not> in_range lo hi ms) zs)"
  using assms
proof (cases rule: zset_of_cases)
  case absent
  then show ?thesis by (simp add: zremrangebyscore_def zset_of_def)
next
  case (holds e)
  then have lv: "live t e" by (simp add: rget_Some_iff)
  show ?thesis
  proof (cases "filter (\<lambda>ms. \<not> in_range lo hi ms) zs = []")
    case True
    then show ?thesis using holds
      by (simp add: zremrangebyscore_def zset_of_def rget_del_same Let_def)
  next
    case False
    then show ?thesis using holds lv
      by (simp add: zremrangebyscore_def zset_of_def rget_upd_same live_rvalue_update Let_def)
  qed
qed

lemma zadd_view:
  assumes "zset_of st t key = Some zs"
  shows "\<exists>st2 e. zadd st t key m s = Inr st2
           \<and> rget st2 t key = Some e
           \<and> rvalue e = RZSet ((m, s) # filter (\<lambda>ms. fst ms \<noteq> m) zs)"
  using assms
proof (cases rule: zset_of_cases)
  case absent
  then show ?thesis by (simp add: zadd_def rget_upd_same live_def)
next
  case (holds e)
  then have lv: "live t e" by (simp add: rget_Some_iff)
  show ?thesis using holds lv
    by (simp add: zadd_def rget_upd_same live_rvalue_update)
qed

lemma pexpire_view:
  assumes "rget st t key = Some e" "0 < ms"
  shows "rget (pexpire st t key ms) t key = Some (e\<lparr>expire_at := Some (t + ms)\<rparr>)"
  using assms by (simp add: pexpire_def rget_upd_same live_def)


lemma sliding_window_deny:
  assumes zs: "zset_of st now (k NAMESPACE ident) = Some zs"
    and full: "limit \<le> int (length (trim now window_ms zs))"
  shows "\<exists>st1. sliding_window NAMESPACE ident limit window_ms now nonce st =
           (st1, Inr \<lparr>out_allow = False, out_limit = limit, out_remaining = 0,
                      out_reset = (if trim now window_ms zs = [] then now + window_ms
                                   else Min (snd ` set (trim now window_ms zs)) + window_ms),
                      out_retryAfter = Some (max 0 (ceil_div_1000
                         ((if trim now window_ms zs = [] then now + window_ms
                           else Min (snd ` set (trim now window_ms zs)) + window_ms) - now)))\<rparr>)
         \<and> zset_of st1 now (k NAMESPACE ident) = Some (trim now window_ms zs)"
proof -
  from zrem_view[OF zs, of 0 "now - window_ms"]
  obtain st1 n where rem: "zremrangebyscore st now (k NAMESPACE ident) 0 (now - window_ms) = Inr (st1, n)"
    and v1: "zset_of st1 now (k NAMESPACE ident) = Some (trim now window_ms zs)"
    by (auto simp: trim_def)
  note card = zcard_view[OF v1] and rng = zrange_view[OF v1]
  show ?thesis using rem card rng full v1
    by (simp add: sliding_window_def Let_def reset_from_oldest)
qed

lemma sliding_window_allow:
  assumes zs: "zset_of st now (k NAMESPACE ident) = Some zs"
    and room: "int (length (trim now window_ms zs)) < limit"
    and ttl: "0 < window_ms + 60000"
  shows "\<exists>st3 e. sliding_window NAMESPACE ident limit window_ms now nonce st =
           (st3, Inr \<lparr>out_allow = True, out_limit = limit,
                      out_remaining = max 0 (limit - (int (length (trim now window_ms zs)) + 1)),
                      out_reset = Min (snd ` set ((str_int now @ ''-'' @ nonce, now) #
                                    filter (\<lambda>ms. fst ms \<noteq> str_int now @ ''-'' @ nonce)
                                      (trim now window_ms zs))) + window_ms,
                      out_retryAfter = None\<rparr>)
         \<and> rget st3 now (k NAMESPACE ident) = Some e
         \<and> rvalue e = RZSet ((str_int now @ ''-'' @ nonce, now) #
                         filter (\<lambda>ms. fst ms \<noteq> str_int now @ ''-'' @ nonce) (trim now window_ms zs))
         \<and> expire_at e = Some (now + (window_ms + 60000))"
proof -
  let ?key = "k NAMESPACE ident" and ?member = "str_int now @ ''-'' @ nonce"
  let ?new = "(?member, now) # filter (\<lambda>ms. fst ms \<noteq> ?member) (trim now window_ms zs)"
  from zrem_view[OF zs, of 0 "now - window_ms"]
  obtain st1 n where rem: "zremrangebyscore st now ?key 0 (now - window_ms) = Inr (st1, n)"
    and v1: "zset_of st1 now ?key = Some (trim now window_ms zs)"
    by (auto simp: trim_def)
  note card = zcard_view[OF v1]
  from zadd_view[OF v1, of ?member now]
  obtain st2 e where add: "zadd st1 now ?key ?member now = Inr st2"
    and g2: "rget st2 now ?key = Some e" and e: "rvalue e = RZSet ?new"
    by blast
  let ?st3 = "pexpire st2 now ?key (window_ms + 60000)"
  let ?e3 = "e\<lparr>expire_at := Some (now + (window_ms + 60000))\<rparr>"
  have g3: "rget ?st3 now ?key = Some ?e3"
    by (rule pexpire_view[OF g2 ttl])
  have v3: "zset_of ?st3 now ?key = Some ?new"
    using g3 e by (simp add: zset_of_def)
  note rng = zrange_view[OF v3]
  have run: "sliding_window NAMESPACE ident limit window_ms now nonce st =
           (?st3, Inr \<lparr>out_allow = True, out_limit = limit,
                      out_remaining = max 0 (limit - (int (length (trim now window_ms zs)) + 1)),
                      out_reset = Min (snd ` set ?new) + window_ms,
                      out_retryAfter = None\<rparr>)"
    using rem card add room
    by (simp add: sliding_window_def Let_def rng reset_from_oldest del: oldest_entry.simps)
  show ?thesis using run g3 e by (intro exI[of _ ?st3] exI[of _ ?e3]) simp
qed



text \<open>
  Scores are clock readings: with a clock that is not negative, a call leaves the scores of
  the set non-negative.
\<close>

lemma sliding_window_keeps_scores_nonneg:
  assumes zs: "zset_of st now (k NAMESPACE ident) = Some zs"
    and nonneg: "\<forall>ms\<in>set zs. 0 \<le> snd ms"
    and now: "0 \<le> now"
    and ttl: "0 < window_ms + 60000"
  shows "\<exists>st' r zs'. sliding_window NAMESPACE ident limit window_ms now nonce st = (st', r)
           \<and> zset_of st' now (k NAMESPACE ident) = Some zs'
           \<and> (\<forall>ms\<in>set zs'. 0 \<le> snd ms)"
proof (cases "limit \<le> int (length (trim now window_ms zs))")
  case True
  from sliding_window_deny[OF zs True, of nonce] nonneg show ?thesis
    by (auto simp: trim_def)
next
  case False
  then have room: "int (length (trim now window_ms zs)) < limit" by simp
  from sliding_window_allow[OF zs room ttl, of nonce]
  obtain st3 e r where run: "sliding_window NAMESPACE ident limit window_ms now nonce st = (st3, r)"
    and g: "rget st3 now (k NAMESPACE ident) = Some e"
    and v: "rvalue e = RZSet ((str_int now @ ''-'' @ nonce, now) #
                         filter (\<lambda>ms. fst ms \<noteq> str_int now @ ''-'' @ nonce) (trim now window_ms zs))"
    by blast
  have "zset_of st3 now (k NAMESPACE ident) =
          Some ((str_int now @ ''-'' @ nonce, now) #
                  filter (\<lambda>ms. fst ms \<noteq> str_int now @ ''-'' @ nonce) (trim now window_ms zs))"
    using g v by (simp add: zset_of_def)
  moreover have "\<forall>ms\<in>set ((str_int now @ ''-'' @ nonce, now) #
                  filter (\<lambda>ms. fst ms \<noteq> str_int now @ ''-'' @ nonce) (trim now window_ms zs)). 0 \<le> snd ms"
    using nonneg now by (auto simp: trim_def)
  ultimately show ?thesis using run by blast
qed



section \<open>The workers\<close>

subsection \<open>The queue scan\<close>

lemma brpop_empty: "qs q = [] \<Longrightarrow> brpop qs q = None"
  by (simp add: brpop_def)

lemma brpop_nonempty: "qs q \<noteq> [] \<Longrightarrow> brpop qs q = Some (last (qs q), qs(q := butlast (qs q)))"
  by (cases "qs q") (simp_all add: brpop_def)

lemma claim_None: "select_queued tbl job_id = None \<Longrightarrow> claim w now job_id tbl = (None, tbl)"
  by (simp add: claim_def)



lemma popped_queues_empty_head: "qs p = [] \<Longrightarrow> popped_queues (p # names) qs = popped_queues names qs"
  by (rule ext) (simp add: popped_queues_def)

lemma popped_queues_head:
  "p \<notin> set names \<Longrightarrow> popped_queues (p # names) qs = popped_queues names (qs(p := butlast (qs p)))"
  by (rule ext) (auto simp: popped_queues_def)

lemma get_next_job_from_empty_head:
  "qs p = [] \<Longrightarrow>
   get_next_job_from (p # names) w now (qs, tbl) = get_next_job_from names w now (qs, tbl)"
  by (simp add: brpop_empty)

lemma get_next_job_from_stale_head:
  "qs p \<noteq> [] \<Longrightarrow> select_queued tbl (last (qs p)) = None \<Longrightarrow>
   get_next_job_from (p # names) w now (qs, tbl) =
     get_next_job_from names w now (qs(p := butlast (qs p)), tbl)"
  by (simp add: brpop_nonempty claim_None)



lemma get_next_job_from_none:
  assumes "distinct names" "\<forall>q\<in>set names. stale qs tbl q"
  shows "get_next_job_from names w now (qs, tbl) = (None, popped_queues names qs, tbl)"
  using assms
proof (induction names arbitrary: qs)
  case Nil
  have "popped_queues [] qs = qs" by (rule ext) (simp add: popped_queues_def)
  then show ?case by simp
next
  case (Cons p names)
  have pq: "p \<notin> set names" and d: "distinct names" using Cons.prems(1) by auto
  show ?case
  proof (cases "qs p = []")
    case True
    have st: "\<forall>q\<in>set names. stale qs tbl q" using Cons.prems(2) by simp
    note get_next_job_from_empty_head[where qs = qs and p = p, OF True, of names w now tbl]
    also note Cons.IH[OF d st]
    finally show ?thesis by (simp only: popped_queues_empty_head[where qs = qs and p = p, OF True])
  next
    case False
    let ?qs1 = "qs(p := butlast (qs p))"
    have none: "select_queued tbl (last (qs p)) = None"
      using Cons.prems(2) False by (simp add: stale_def)
    have st: "\<forall>q\<in>set names. stale ?qs1 tbl q"
      using Cons.prems(2) pq by (auto simp: stale_def)
    note get_next_job_from_stale_head[where qs = qs and p = p, OF False none, of names w now]
    also note Cons.IH[OF d st]
    finally show ?thesis by (simp only: popped_queues_head[OF pq])
  qed
qed

lemma ASR_queues_order:
  "ASR_queues = map (queue_name ''TRANSCRIPTION'') [''URGENT'', ''HIGH'', ''NORMAL'', ''LOW'']"
  by (simp add: ASR_queues_def queue_name_def)







subsection \<open>The claim\<close>

lemma claim_is_two_steps:
  "claim w now job_id tbl =
     (case claim_step w now (Popped job_id) tbl of
        (pc, tbl1) \<Rightarrow>
          (case claim_step w now pc tbl1 of
             (Claimed j, tbl2) \<Rightarrow> (Some j, tbl2)
           | (_, tbl2) \<Rightarrow> (None, tbl2)))"
  by (simp add: claim_def split: option.splits)

lemma claim_uninterrupted_once:
  assumes "claim w1 t1 job_id tbl = (Some j, tbl')"
  shows "claim w2 t2 job_id tbl' = (None, tbl')"
  using assms
  by (auto simp: claim_def select_queued_def mark_running_def split: option.splits if_splits)

lemma mark_running_ignores_status:
  "tbl job_id = Some r \<Longrightarrow>
   mark_running tbl job_id w now job_id =
     Some (r\<lparr>job_status := RUNNING, startedAt := Some now, workerId := Some w\<rparr>)"
  by (simp add: mark_running_def)

text \<open>
  C1. At most one worker should see a successful claim of a job. The code selects the row
  with status QUEUED and then updates by id alone, in two statements. When two workers hold
  the same popped id and their statements interleave (SELECT, SELECT, UPDATE, UPDATE),
  both SELECTs find the row QUEUED, both workers return the job, and the second UPDATE
  overwrites the first worker's claim.
\<close>

theorem claim_race_both_workers_claim:
  "(case run_schedule [0, 1, 0, 1] race_workers 7 (\<lambda>i. Popped ''job-1'', race_table) of
      (pcs, tbl) \<Rightarrow>
        pcs 0 = Claimed \<lparr>jobId = ''job-1'', jtype = ''TRANSCRIPTION'', payload = ''{}''\<rparr>
      \<and> pcs 1 = Claimed \<lparr>jobId = ''job-1'', jtype = ''TRANSCRIPTION'', payload = ''{}''\<rparr>
      \<and> map_option workerId (tbl ''job-1'') = Some (Some ''asr-2-b''))"
  by (simp add: race_table_def race_workers_def new_row_def select_queued_def mark_running_def)

subsection \<open>Terminal writes\<close>

text \<open>
  C4, as stated: terminal writes apply only to a row that is RUNNING under the writing
  worker. They do not: a CANCELLED row is overwritten by COMPLETED and by FAILED, and so is
  a row that another worker runs.
\<close>

theorem terminal_write_overwrites_cancelled:
  "map_option job_status (cancelled_table ''job-1'') = Some CANCELLED
   \<and> map_option job_status (terminal_write cancelled_table ''job-1'' (Inr ''{}'') 9 ''job-1'') = Some COMPLETED
   \<and> map_option job_status (terminal_write cancelled_table ''job-1'' (Inl ''boom'') 9 ''job-1'') = Some FAILED
   \<and> map_option workerId (cancelled_table ''job-1'') = Some (Some ''asr-1-a'')
   \<and> map_option job_status
        (terminal_write (cancelled_table(''job-1'' \<mapsto> (new_row ''TRANSCRIPTION'' RUNNING)\<lparr>workerId := Some ''asr-2-b''\<rparr>))
           ''job-1'' (Inr ''{}'') 9 ''job-1'') = Some COMPLETED"
  by (simp add: cancelled_table_def new_row_def terminal_write_def mark_completed_def mark_failed_def)

text \<open>
  C4, amended. The terminal writes are keyed by the job id alone: whatever the status and
  the workerId of the row, COMPLETED is written with progress 100, completedAt and
  outputData, and FAILED with errorMessage and completedAt; no other row changes.
\<close>

theorem terminal_write_unconditional:
  assumes "tbl job_id = Some r"
  shows "terminal_write tbl job_id (Inr output) now =
           tbl(job_id \<mapsto> r\<lparr>job_status := COMPLETED, progress := 100,
                              completedAt := Some now, outputData := Some output\<rparr>)
       \<and> terminal_write tbl job_id (Inl error) now =
           tbl(job_id \<mapsto> r\<lparr>job_status := FAILED, errorMessage := Some error,
                              completedAt := Some now\<rparr>)"
  using assms by (simp add: terminal_write_def mark_completed_def mark_failed_def)

theorem terminal_write_unconditional_witness:
  "terminal_write cancelled_table ''job-1'' (Inr ''{}'') 9 =
     cancelled_table(''job-1'' \<mapsto>
        \<lparr>job_type = ''TRANSCRIPTION'', inputData = ''{}'', job_status = COMPLETED, progress = 100,
         workerId = Some ''asr-1-a'', startedAt = Some 3, completedAt = Some 9,
         outputData = Some ''{}'', errorMessage = None\<rparr>)"
proof -
  have row: "cancelled_table ''job-1'' =
      Some ((new_row ''TRANSCRIPTION'' CANCELLED)\<lparr>workerId := Some ''asr-1-a'', startedAt := Some 3\<rparr>)"
    by (simp add: cancelled_table_def)
  from terminal_write_unconditional[where tbl = cancelled_table and job_id = "''job-1''", OF row,
      of "''{}''" 9]
  show ?thesis by (simp add: new_row_def)
qed

section \<open>The request handler of the rate limiter\<close>

lemma lower_fixed: "lower ''fixed'' = ''fixed''" "lower ''sliding'' = ''sliding''"
  by (simp_all add: lower_def lower_char_def)

lemma str_int_0: "str_int 0 = ''0''"
  by code_simp

lemma strip_x: "strip ''x'' = ''x''"
  by (simp add: strip_def is_space_def)

lemma ratelimit_rejects:
  "ratelimit NAMESPACE now nonce InvalidJSON st = (st, HTTPException 400 ''invalid JSON'')"
  "strip (case idf of None \<Rightarrow> [] | Some s \<Rightarrow> s) = [] \<Longrightarrow>
     ratelimit NAMESPACE now nonce (Body idf (Value l) (Value w) (Value a)) st =
       (st, HTTPException 400 ''missing id'')"
  "strip ident \<noteq> [] \<Longrightarrow> a \<noteq> [] \<Longrightarrow> lower a \<noteq> ''sliding'' \<Longrightarrow> lower a \<noteq> ''fixed'' \<Longrightarrow>
     ratelimit NAMESPACE now nonce (Body (Some ident) (Value l) (Value w) (Value a)) st =
       (st, HTTPException 400 ''unsupported algo'')"
  by (simp_all add: ratelimit_def int_or_def algo_of_def Let_def)

text \<open>
  C5. Inputs with a limit or a window below 1 should be rejected with status 400 and change
  nothing. The handler checks the JSON, the id and the algorithm only: a fixed-window
  request with limit 0 is answered with status 200 after the bucket counter was incremented,
  and one with window 0 ends in a ZeroDivisionError, which is status 500.
\<close>

theorem ratelimit_invalid_input_not_rejected:
  "ratelimit ''ratelimit:'' 5 ''n'' (Body (Some ''x'') (Value 0) (Value 1000) (Value ''fixed''))
       (\<lambda>key. None) =
     ((\<lambda>key. None)(''ratelimit:fw:x:0'' \<mapsto> \<lparr>rvalue = RInt 1, expire_at = Some 1005\<rparr>),
      JSONResponse \<lparr>out_allow = False, out_limit = 0, out_remaining = 0, out_reset = 1000,
                    out_retryAfter = Some 1\<rparr>)
   \<and> ratelimit ''ratelimit:'' 5 ''n'' (Body (Some ''x'') (Value 5) (Value 0) (Value ''fixed''))
       (\<lambda>key. None) =
     (\<lambda>key. None, InternalServerError ZeroDivisionError)"
  by (simp add: ratelimit_def int_or_def algo_of_def lower_fixed strip_x Let_def respond_def
      fixed_window_def k_def str_int_0 incr_def rget_def pexpire_def live_def
      ceil_div_1000_def)

section \<open>The reconciler\<close>

lemma lower_example:
  "lower ''ssh-3afb6505.example.com'' = ''ssh-3afb6505.example.com''"
  "lower ''a.example.com'' = ''a.example.com''"
  by (simp_all add: lower_def lower_char_def)

subsection \<open>Start-up with missing configuration\<close>

text \<open>
  C10, as stated: every component exits with a non-zero status when a required variable is
  missing. The full-sync script of the reconciler exits with status 0 when the provider
  token is missing.
\<close>

theorem missing_token_exits_zero:
  "sync_main no_token_env (\<lambda>n. Succeeded) =
     \<lparr>exit_status = 0, health_written = False, api_log = []\<rparr>"
  by (simp add: sync_main_def no_token_env_def unset_def)

text \<open>
  C10, amended. With REDIS_HOST or REDIS_PASSWORD unset or empty the rate limiter exits with
  status 1 before its client and application exist. With the provider token or the base
  domain missing the full-sync script exits with status 0, having made no look-up and no
  call and written no health file; it exits with status 1 when the Traefik configuration
  file is missing.
\<close>

theorem missing_config_exit_statuses:
  "(unset (REDIS_HOST env) \<or> unset (REDIS_PASSWORD env) \<longrightarrow> module_init env = Exit 1)
   \<and> (config_exists senv \<and> (unset (CLOUDFLARE_API_TOKEN senv) \<or> env_DOMAIN_BASE senv = []) \<longrightarrow>
        sync_main senv api = \<lparr>exit_status = 0, health_written = False, api_log = []\<rparr>)
   \<and> (\<not> config_exists senv \<longrightarrow>
        sync_main senv api = \<lparr>exit_status = 1, health_written = False, api_log = []\<rparr>)"
  by (simp add: module_init_def sync_main_def)

theorem missing_config_exit_statuses_witness:
  "module_init \<lparr>REDIS_HOST = Some ''redis'', REDIS_PASSWORD = None, REDIS_PORT = Missing,
                 REDIS_DB = Missing, NAMESPACE_PREFIX = None\<rparr> = Exit 1
   \<and> sync_main (no_token_env\<lparr>CLOUDFLARE_API_TOKEN := Some ''token'', env_DOMAIN_BASE := []\<rparr>) (\<lambda>n. Succeeded)
       = \<lparr>exit_status = 0, health_written = False, api_log = []\<rparr>
   \<and> sync_main (no_token_env\<lparr>config_exists := False\<rparr>) (\<lambda>n. Succeeded)
       = \<lparr>exit_status = 1, health_written = False, api_log = []\<rparr>"
  using missing_config_exit_statuses[of
      "\<lparr>REDIS_HOST = Some ''redis'', REDIS_PASSWORD = None, REDIS_PORT = Missing,
        REDIS_DB = Missing, NAMESPACE_PREFIX = None\<rparr>"
      "no_token_env\<lparr>CLOUDFLARE_API_TOKEN := Some ''token'', env_DOMAIN_BASE := []\<rparr>"
      "\<lambda>n. Succeeded"]
    missing_config_exit_statuses[of
      "\<lparr>REDIS_HOST = Some ''redis'', REDIS_PASSWORD = None, REDIS_PORT = Missing,
        REDIS_DB = Missing, NAMESPACE_PREFIX = None\<rparr>"
      "no_token_env\<lparr>config_exists := False\<rparr>"
      "\<lambda>n. Succeeded"]
  by (simp add: unset_def no_token_env_def)

subsection \<open>The stored checksum\<close>

text \<open>
  C9. The stored checksum should advance only after a pass in which no call failed. The
  script computes \<open>success\<close> and writes the health file only when it is true, but then exits
  with status 0 whatever its value; the periodic check takes the status 0 for success and
  stores the new checksum. Here every call of the pass fails, the pass returns False, and
  the checksum moves from \<open>old\<close> to \<open>new\<close>.
\<close>

theorem failed_pass_advances_fingerprint:
  "sync_dns_records ''example.com'' (good_lookups []) (\<lambda>n. Failed) [''a.example.com''] =
     Some ([(CreateRecord ''example.com'' ''1.2.3.4'' True, Failed),
            (CreateRecord ''ssh-3afb6505.example.com'' ''1.2.3.4'' False, Failed),
            (CreateRecord ''a.example.com'' ''1.2.3.4'' True, Failed)], False)
   \<and> exit_status (sync_main one_host_env (\<lambda>n. Failed)) = 0
   \<and> fst (run_full_sync changed_config one_host_env (\<lambda>n. Failed) old_files) = True
   \<and> fst (snd (run_full_sync changed_config one_host_env (\<lambda>n. Failed) old_files)) =
       \<lparr>checksum_file = Some ''new'', health_file = None\<rparr>
   \<and> fst (check_main changed_config one_host_env (\<lambda>n. Failed) old_files) = 0"
  by (simp add: sync_dns_records_def good_lookups_def sync_calls_def root_calls_def ssh_calls_def
      ssh_hostname_of_def lower_example find_A_def should_proxy_of_def endswith_def prune_calls_def
      orphaned_def sync_main_def one_host_env_def unset_def run_full_sync_def changed_config_def
      old_files_def update_traefik_checksum_def check_main_def has_traefik_config_changed_def
      strip_def is_space_def update_health_check_def Let_def)

subsection \<open>The proxy flag\<close>

text \<open>
  C7. The root record should always be proxied after a pass. The root branch compares the
  content only, where the branches for the helper name and for the hostnames compare the
  proxy flag too: a root record with the right address that is not proxied gets no call and
  stays unproxied, in a pass that returns True.
\<close>

theorem root_record_left_unproxied:
  "sync_dns_records ''example.com'' (good_lookups unproxied_root) (\<lambda>n. Succeeded) [] =
     Some ([(CreateRecord ''ssh-3afb6505.example.com'' ''1.2.3.4'' False, Succeeded)], True)
   \<and> apply_log (\<lambda>n. ''new'') 0
        [(CreateRecord ''ssh-3afb6505.example.com'' ''1.2.3.4'' False, Succeeded)] unproxied_root =
      [\<lparr>rec_id = ''r1'', rec_type = ''A'', rec_name = ''example.com'', rec_content = ''1.2.3.4'',
        rec_proxied = Some False\<rparr>,
       \<lparr>rec_id = ''new'', rec_type = ''A'', rec_name = ''ssh-3afb6505.example.com'',
        rec_content = ''1.2.3.4'', rec_proxied = Some False\<rparr>]"
  by (simp add: sync_dns_records_def good_lookups_def sync_calls_def root_calls_def ssh_calls_def
      ssh_hostname_of_def lower_example find_A_def unproxied_root_def)

subsection \<open>The calls of a pass\<close>


lemma hostname_calls_Cons:
  "hostname_calls B ip ex (h # hs) acc =
     (if lower h = ssh_hostname_of B then hostname_calls B ip ex hs acc
      else ((case find_A ex (lower h) of
               Some r \<Rightarrow>
                 if rec_content r \<noteq> ip \<or> get_proxied r \<noteq> should_proxy_of B (lower h)
                 then [UpdateRecord (rec_id r) (lower h) ip (should_proxy_of B (lower h))]
                 else []
             | None \<Rightarrow> [CreateRecord (lower h) ip (should_proxy_of B (lower h))])
            @ fst (hostname_calls B ip ex hs (acc @ [lower h])),
            snd (hostname_calls B ip ex hs (acc @ [lower h]))))"
  by (simp add: Let_def split: prod.splits)









lemma execute_Cons:
  "execute api n (c # cs) =
     (case api n of
        Raised \<Rightarrow> ([(c, Raised)], False)
      | Failed \<Rightarrow> ((c, Failed) # fst (execute api (Suc n) cs), False)
      | Succeeded \<Rightarrow> ((c, Succeeded) # fst (execute api (Suc n) cs), snd (execute api (Suc n) cs)))"
  by (simp split: api_result.splits prod.splits)






lemma execute_success:
  "snd (execute api n cs) \<longleftrightarrow> (\<forall>i<length cs. api (n + i) = Succeeded)"
proof (induction cs arbitrary: n)
  case Nil
  then show ?case by simp
next
  case (Cons c cs)
  have "(\<forall>i<length (c # cs). api (n + i) = Succeeded) \<longleftrightarrow>
        api n = Succeeded \<and> (\<forall>i<length cs. api (Suc n + i) = Succeeded)"
    by (auto simp: less_Suc_eq_0_disj)
  then show ?case
    unfolding execute_Cons using Cons.IH[of "Suc n"]
    by (auto split: api_result.splits)
qed

lemma sync_calls_alt:
  "sync_calls B ip ex hs =
     root_calls B ip ex @ ssh_calls B ip ex
     @ fst (hostname_calls B ip ex hs [B, ssh_hostname_of B])
     @ (if hs \<noteq> [] then prune_calls B ex (snd (hostname_calls B ip ex hs [B, ssh_hostname_of B]))
        else [])"
  by (simp add: sync_calls_def split: prod.splits)

lemma written_proxy_rule:
  assumes "c \<in> set (sync_calls B ip ex hs)" "written c = Some (h, p)"
  shows "p = (\<not> (h = ssh_hostname_of B \<or> endswith h (''-d.'' @ B)))"
proof -
  have len: "length (ssh_hostname_of B) = 13 + length B"
    by (simp add: ssh_hostname_of_def lower_def)
  have root: "B \<noteq> ssh_hostname_of B" "\<not> endswith B (''-d.'' @ B)"
    using len by (auto simp: endswith_def)
  have host: "c \<in> set (fst (hostname_calls B ip ex hs acc)) \<Longrightarrow> ?thesis" for acc
  proof (induction hs arbitrary: acc)
    case Nil
    then show ?case by simp
  next
    case (Cons x xs)
    from Cons.prems assms(2) show ?case
      unfolding hostname_calls_Cons using Cons.IH[of acc] Cons.IH[of "acc @ [lower x]"]
      by (auto simp: should_proxy_of_def split: if_splits option.splits)
  qed
  from assms(1) consider "c \<in> set (root_calls B ip ex)" | "c \<in> set (ssh_calls B ip ex)"
    | "c \<in> set (fst (hostname_calls B ip ex hs [B, ssh_hostname_of B]))"
    | "c \<in> set (prune_calls B ex (snd (hostname_calls B ip ex hs [B, ssh_hostname_of B])))"
    by (auto simp: sync_calls_alt split: if_splits)
  then show ?thesis
  proof cases
    case 1
    then show ?thesis using assms(2) root
      by (auto simp: root_calls_def split: option.splits if_splits)
  next
    case 2
    then show ?thesis using assms(2)
      by (auto simp: ssh_calls_def Let_def split: option.splits if_splits)
  next
    case 3
    then show ?thesis by (rule host)
  next
    case 4
    then show ?thesis using assms(2) by (auto simp: prune_calls_def)
  qed
qed



end
